theory Spec2Isabelle
  imports Main
begin

section \<open>Change sets (class ChangeSetImpl of chat-model.ts)\<close>

text \<open>
  A change set element is identified by its resource identifier; the source compares
  \<open>uri.toString()\<close>, so the identifier is kept as its string form. The optional
  asynchronous operations of an element (open, accept, ...) are stored and republished
  only and are left out.
\<close>

datatype element_state = pending | applied | discarded

datatype element_type = add | modify | delete

record ChangeSetElement =
  uri :: string
  elementName :: "string option"
  icon :: "string option"
  additionalInfo :: "string option"
  elementState :: "element_state option"
  elementType :: "element_type option"

text \<open>
  \<open>listeners\<close> are the callbacks registered on the change set's own
  \<open>_onDidChangeEmitter\<close>, each named by the number of its subscription;
  \<open>fired\<close> counts how often that emitter has fired.
\<close>

record ChangeSetImpl =
  title :: string
  elements :: "ChangeSetElement list"
  listeners :: "nat list"
  fired :: nat

text \<open>\<open>Array.prototype.findIndex\<close>: the first index whose element satisfies the
  predicate, \<open>-1\<close> when there is none.\<close>

fun findIndex :: "('a \<Rightarrow> bool) \<Rightarrow> 'a list \<Rightarrow> int" where
  "findIndex p [] = - 1"
| "findIndex p (x # xs) =
     (if p x then 0
      else (let i = findIndex p xs in if i < 0 then - 1 else i + 1))"

definition notifyChange :: "ChangeSetImpl \<Rightarrow> ChangeSetImpl" where
  "notifyChange cs = cs\<lparr>fired := fired cs + 1\<rparr>"

definition addElements :: "ChangeSetImpl \<Rightarrow> ChangeSetElement list \<Rightarrow> ChangeSetImpl" where
  "addElements cs es = notifyChange (cs\<lparr>elements := elements cs @ es\<rparr>)"

definition addElement :: "ChangeSetImpl \<Rightarrow> ChangeSetElement \<Rightarrow> ChangeSetImpl" where
  "addElement cs e = addElements cs [e]"

text \<open>The result pairs the returned boolean with the change set after the call.\<close>

definition replaceElement :: "ChangeSetImpl \<Rightarrow> ChangeSetElement \<Rightarrow> bool \<times> ChangeSetImpl" where
  "replaceElement cs e =
     (let index = findIndex (\<lambda>x. uri x = uri e) (elements cs)
      in if index < 0 then (False, cs)
         else (True, notifyChange (cs\<lparr>elements := (elements cs)[nat index := e]\<rparr>)))"

definition addOrReplaceElement :: "ChangeSetImpl \<Rightarrow> ChangeSetElement \<Rightarrow> ChangeSetImpl" where
  "addOrReplaceElement cs e =
     (case replaceElement cs e of
        (True, cs') \<Rightarrow> cs'
      | (False, cs') \<Rightarrow> addElement cs' e)"

text \<open>\<open>splice(index, 1)\<close> at a valid index drops that element; at an index past the
  end it drops nothing. (Negative indices count from the end in the source and are not
  modelled: the index is a position.)\<close>

definition removeElement :: "ChangeSetImpl \<Rightarrow> nat \<Rightarrow> ChangeSetImpl" where
  "removeElement cs index =
     notifyChange (cs\<lparr>elements := take index (elements cs) @ drop (Suc index) (elements cs)\<rparr>)"


section \<open>The conversation model and its change set (class MutableChatModel)\<close>

text \<open>
  Change sets are objects: the conversation model holds a reference to the active one and
  a subscription on its emitter, and a change set that was replaced lives on and can still
  fire. The model therefore carries a store of the change set objects, addressed by
  reference. The request list of the conversation is not touched by the operations below
  and is left out.
\<close>

type_synonym ref = nat

datatype ChatChangeEvent =
    ChatSetChangeSetEvent ref
  | ChatSetChangeDeleteEvent
  | ChatUpdateChangeSetEvent "ref option"
  | ChatRemoveChangeSetEvent ref

text \<open>
  \<open>changeSetListener\<close> is the Disposable kept in \<open>_changeSetListener\<close>: the change
  set it was registered on and the number of the subscription. \<open>events\<close> is the sequence
  of events fired so far on the model's \<open>_onDidChangeEmitter\<close>, oldest first.
  \<open>ChatUpdateChangeSetEvent\<close> carries \<open>this._changeSet\<close> as it is when the callback
  runs, which may be undefined.
\<close>

record MutableChatModel =
  changeSets :: "ref \<Rightarrow> ChangeSetImpl"
  changeSet :: "ref option"
  changeSetListener :: "(ref \<times> nat) option"
  subscriptions :: nat
  events :: "ChatChangeEvent list"

text \<open>
  Modelled from the spec: the \<open>Emitter\<close> of the core package is not part of the sources
  at hand. Following the change notification stream of the spec, an event is delivered
  synchronously to every registered observer, in registration order; subscribing returns
  a Disposable whose \<open>dispose\<close> removes that one registration and is harmless when
  repeated.
\<close>

definition fire :: "MutableChatModel \<Rightarrow> ChatChangeEvent \<Rightarrow> MutableChatModel" where
  "fire m ev = m\<lparr>events := events m @ [ev]\<rparr>"

definition onDidChange :: "ChangeSetImpl \<Rightarrow> nat \<Rightarrow> ChangeSetImpl" where
  "onDidChange cs l = cs\<lparr>listeners := listeners cs @ [l]\<rparr>"

fun dispose :: "MutableChatModel \<Rightarrow> (ref \<times> nat) option \<Rightarrow> MutableChatModel" where
  "dispose m None = m"
| "dispose m (Some (a, l)) =
     m\<lparr>changeSets := (changeSets m)
          (a := (changeSets m a)\<lparr>listeners := removeAll l (listeners (changeSets m a))\<rparr>)\<rparr>"

definition newChangeSetImpl :: "string \<Rightarrow> ChangeSetElement list \<Rightarrow> ChangeSetImpl" where
  "newChangeSetImpl t es =
     addElements \<lparr>title = t, elements = [], listeners = [], fired = 0\<rparr> es"

definition newMutableChatModel :: "(ref \<Rightarrow> ChangeSetImpl) \<Rightarrow> MutableChatModel" where
  "newMutableChatModel store =
     \<lparr>changeSets = store, changeSet = None, changeSetListener = None,
      subscriptions = 0, events = []\<rparr>"

definition setChangeSet :: "MutableChatModel \<Rightarrow> ref option \<Rightarrow> MutableChatModel" where
  "setChangeSet m cs =
     (let m1 = m\<lparr>changeSet := cs\<rparr>
      in case cs of
           None \<Rightarrow> fire (dispose m1 (changeSetListener m1)) ChatSetChangeDeleteEvent
         | Some a \<Rightarrow>
             (let m2 = fire m1 (ChatSetChangeSetEvent a);
                  l = subscriptions m2
              in m2\<lparr>changeSets := (changeSets m2)(a := onDidChange (changeSets m2 a) l),
                    changeSetListener := Some (a, l),
                    subscriptions := l + 1\<rparr>))"

definition removeChangeSet :: "MutableChatModel \<Rightarrow> MutableChatModel" where
  "removeChangeSet m =
     (case changeSet m of
        Some oldChangeSet \<Rightarrow> fire (m\<lparr>changeSet := None\<rparr>) (ChatRemoveChangeSetEvent oldChangeSet)
      | None \<Rightarrow> m)"

text \<open>The callback that \<open>setChangeSet\<close> registers on a change set.\<close>

definition changeSetListenerCallback :: "MutableChatModel \<Rightarrow> MutableChatModel" where
  "changeSetListenerCallback m = fire m (ChatUpdateChangeSetEvent (changeSet m))"

text \<open>
  The change set at reference \<open>a\<close> runs \<open>notifyChange\<close>: its emitter fires and every
  callback registered on it runs, in registration order.
\<close>

definition notifyChangeAt :: "MutableChatModel \<Rightarrow> ref \<Rightarrow> MutableChatModel" where
  "notifyChangeAt m a =
     fold (\<lambda>l m'. changeSetListenerCallback m') (listeners (changeSets m a))
       (m\<lparr>changeSets := (changeSets m)(a := notifyChange (changeSets m a))\<rparr>)"


section \<open>The lifecycle of a response (class MutableChatResponseModel)\<close>

text \<open>
  The lifecycle fields of a response. \<open>_isError\<close> is not set by the constructor, so it
  is undefined (here \<open>None\<close>) until \<open>error\<close> runs. \<open>responseFired\<close> counts
  the change notifications of the response model.

  Modelled from the spec: the \<open>CancellationTokenSource\<close> of the core package is not part
  of the sources at hand. Each response owns one cancellation signal, \<open>cancel\<close> raises it
  and \<open>isCanceled\<close> reflects whether it has been raised; it is the field
  \<open>cancellationRequested\<close>.
\<close>

record MutableChatResponseModel =
  isComplete :: bool
  isWaitingForInput :: bool
  isError :: "bool option"
  errorObject :: "string option"
  cancellationRequested :: bool
  responseFired :: nat

definition newMutableChatResponseModel :: MutableChatResponseModel where
  "newMutableChatResponseModel =
     \<lparr>isComplete = False, isWaitingForInput = False, isError = None, errorObject = None,
      cancellationRequested = False, responseFired = 0\<rparr>"

definition isCanceled :: "MutableChatResponseModel \<Rightarrow> bool" where
  "isCanceled r = cancellationRequested r"

definition complete :: "MutableChatResponseModel \<Rightarrow> MutableChatResponseModel" where
  "complete r =
     r\<lparr>isComplete := True, isWaitingForInput := False, responseFired := responseFired r + 1\<rparr>"

definition cancel :: "MutableChatResponseModel \<Rightarrow> MutableChatResponseModel" where
  "cancel r =
     r\<lparr>cancellationRequested := True, isComplete := True, isWaitingForInput := False,
       responseFired := responseFired r + 1\<rparr>"

definition waitForInput :: "MutableChatResponseModel \<Rightarrow> MutableChatResponseModel" where
  "waitForInput r = r\<lparr>isWaitingForInput := True, responseFired := responseFired r + 1\<rparr>"

definition stopWaitingForInput :: "MutableChatResponseModel \<Rightarrow> MutableChatResponseModel" where
  "stopWaitingForInput r =
     r\<lparr>isWaitingForInput := False, responseFired := responseFired r + 1\<rparr>"

definition error :: "MutableChatResponseModel \<Rightarrow> string \<Rightarrow> MutableChatResponseModel" where
  "error r e =
     r\<lparr>isComplete := True, isWaitingForInput := False, isError := Some True,
       errorObject := Some e, responseFired := responseFired r + 1\<rparr>"



section \<open>Response content (the content classes of chat-model.ts)\<close>

text \<open>
  The \<open>kind\<close> of a content object is a string in the source. The kinds of the classes
  of the file are constructors of their own here; \<open>other_kind k\<close> is any kind string
  \<open>k\<close> that is none of them.
\<close>

datatype content_kind =
    error_kind | text_kind | markdownContent_kind | informational_kind | code_kind
  | toolCall_kind | command_kind | horizontal_kind | question_kind | other_kind string

text \<open>A source location: resource identifier, line and character.\<close>

type_synonym location = "string \<times> nat \<times> nat"

text \<open>An option of a question: its text and its optional value.\<close>

type_synonym question_option = "string \<times> string option"

text \<open>
  One constructor per content class, with the fields of the class in the order of its
  constructor; a markdown string is kept as its \<open>value\<close>, an error as its message, a
  command as its optional command id and the optional label of its custom callback
  (its positional arguments play no part below). Modelled from the spec: the markdown
  string class of the core package is not part of the sources at hand; appending markup
  to a markdown string appends it to the accumulated value. A question's request and handler are
  left out. Three further constructors are content objects that are not instances of a
  class of the file. \<open>PlainTextChatResponseContent c\<close> is the object
  \<open>{kind: 'text', content: c}\<close> and \<open>PlainChatResponseContent k\<close> is an object of
  some other kind \<open>k\<close>; both implement none of the optional methods of the interface
  \<open>ChatResponseContent\<close>. \<open>PlainToolCallChatResponseContent\<close> is an object of the
  kind \<open>toolCall\<close> with the fields \<open>id\<close>, \<open>name\<close>, \<open>arguments\<close>, \<open>finished\<close>
  and \<open>result\<close> of the interface \<open>ToolCallChatResponseContent\<close>, without
  \<open>asString\<close> and \<open>asDisplayString\<close>; its last field is \<open>None\<close> when it has no
  \<open>merge\<close> either, and \<open>Some b\<close> when it brings a \<open>merge\<close> of its own that returns
  \<open>b\<close> and leaves the object as it is. The guard of the tool call kind reads the kind
  only, so such an object is a tool call for \<open>doAddContent\<close>.
\<close>

datatype ChatResponseContent =
    ErrorChatResponseContentImpl string
  | TextChatResponseContentImpl string
  | MarkdownChatResponseContentImpl string
  | InformationalChatResponseContentImpl string
  | CodeChatResponseContentImpl string "string option" "location option"
  | ToolCallChatResponseContentImpl
      "string option" "string option" "string option" "bool option" "string option"
  | CommandChatResponseContentImpl "string option" "string option"
  | HorizontalLayoutChatResponseContentImpl "ChatResponseContent list"
  | QuestionResponseContentImpl string "question_option list" "question_option option"
  | PlainTextChatResponseContent string
  | PlainChatResponseContent string
  | PlainToolCallChatResponseContent
      "string option" "string option" "string option" "bool option" "string option"
      "bool option"

fun kind :: "ChatResponseContent \<Rightarrow> content_kind" where
  "kind (ErrorChatResponseContentImpl e) = error_kind"
| "kind (TextChatResponseContentImpl c) = text_kind"
| "kind (MarkdownChatResponseContentImpl c) = markdownContent_kind"
| "kind (InformationalChatResponseContentImpl c) = informational_kind"
| "kind (CodeChatResponseContentImpl c l p) = code_kind"
| "kind (ToolCallChatResponseContentImpl i n a f r) = toolCall_kind"
| "kind (CommandChatResponseContentImpl c b) = command_kind"
| "kind (HorizontalLayoutChatResponseContentImpl cs) = horizontal_kind"
| "kind (QuestionResponseContentImpl q os s) = question_kind"
| "kind (PlainTextChatResponseContent c) = text_kind"
| "kind (PlainChatResponseContent k) = other_kind k"
| "kind (PlainToolCallChatResponseContent i n a f r m) = toolCall_kind"

subsection \<open>Strings of the host language\<close>

definition newline :: string where
  "newline = [CHR 0x0A]"

text \<open>A value of type \<open>string | undefined\<close> is a \<open>string option\<close>. Converting it to
  a string inside a template literal or a concatenation yields the text \<open>undefined\<close>
  for the undefined value.\<close>

fun toString :: "string option \<Rightarrow> string" where
  "toString None = ''undefined''"
| "toString (Some s) = s"

text \<open>Nullish coalescing \<open>v ?? d\<close>.\<close>

fun orElse :: "string option \<Rightarrow> string \<Rightarrow> string" where
  "orElse None d = d"
| "orElse (Some s) d = s"

text \<open>\<open>a || b\<close> on optional strings: an undefined or empty \<open>a\<close> is falsy.\<close>

fun orFalsy :: "string option \<Rightarrow> string \<Rightarrow> string" where
  "orFalsy None d = d"
| "orFalsy (Some s) d = (if s = [] then d else s)"

text \<open>\<open>Array.prototype.join\<close>: undefined elements are rendered as the empty string.\<close>

fun join :: "string \<Rightarrow> string option list \<Rightarrow> string" where
  "join sep [] = []"
| "join sep [x] = orElse x []"
| "join sep (x # y # ys) = orElse x [] @ sep @ join sep (y # ys)"

subsection \<open>The optional methods of a content object\<close>

text \<open>
  Each optional method is an option: \<open>None\<close> when the object has no such method
  (\<open>typeof obj.asString !== 'function'\<close>), otherwise the value a call returns, which
  is itself a \<open>string | undefined\<close>.
\<close>

fun content_asString :: "ChatResponseContent \<Rightarrow> string option option" where
  "content_asString (ErrorChatResponseContentImpl e) = Some None"
| "content_asString (TextChatResponseContentImpl c) = Some (Some c)"
| "content_asString (MarkdownChatResponseContentImpl c) = Some (Some c)"
| "content_asString (InformationalChatResponseContentImpl c) = Some None"
| "content_asString (CodeChatResponseContentImpl c l p) =
     Some (Some (''```'' @ orElse l [] @ newline @ c @ newline @ ''```''))"
| "content_asString (ToolCallChatResponseContentImpl i n a f r) = Some (Some [])"
| "content_asString (CommandChatResponseContentImpl c b) =
     Some (Some (orFalsy c (orFalsy b ''command'')))"
| "content_asString (HorizontalLayoutChatResponseContentImpl cs) =
     Some (Some (join '' ''
       (map (\<lambda>child. case content_asString child of None \<Rightarrow> None | Some r \<Rightarrow> r) cs)))"
| "content_asString (QuestionResponseContentImpl q os s) =
     Some (Some (''Question: '' @ q @ newline @
       (case s of Some (t, v) \<Rightarrow> ''Answer: '' @ t | None \<Rightarrow> ''No answer'')))"
| "content_asString (PlainTextChatResponseContent c) = None"
| "content_asString (PlainChatResponseContent k) = None"
| "content_asString (PlainToolCallChatResponseContent i n a f r m) = None"

fun content_asDisplayString :: "ChatResponseContent \<Rightarrow> string option option" where
  "content_asDisplayString (TextChatResponseContentImpl c) =
     content_asString (TextChatResponseContentImpl c)"
| "content_asDisplayString (MarkdownChatResponseContentImpl c) =
     content_asString (MarkdownChatResponseContentImpl c)"
| "content_asDisplayString (ToolCallChatResponseContentImpl i n a f r) =
     Some (Some (''Tool call: '' @ toString n @ ''('' @ orElse a [] @ '')''))"
| "content_asDisplayString (HorizontalLayoutChatResponseContentImpl cs) =
     content_asString (HorizontalLayoutChatResponseContentImpl cs)"
| "content_asDisplayString c = None"

definition hasAsString :: "ChatResponseContent \<Rightarrow> bool" where
  "hasAsString obj = (content_asString obj \<noteq> None)"

definition hasDisplayString :: "ChatResponseContent \<Rightarrow> bool" where
  "hasDisplayString obj = (content_asDisplayString obj \<noteq> None)"

fun hasMerge :: "ChatResponseContent \<Rightarrow> bool" where
  "hasMerge (ErrorChatResponseContentImpl e) = False"
| "hasMerge (CommandChatResponseContentImpl c b) = False"
| "hasMerge (PlainTextChatResponseContent c) = False"
| "hasMerge (PlainChatResponseContent k) = False"
| "hasMerge (PlainToolCallChatResponseContent i n a f r m) = (m \<noteq> None)"
| "hasMerge c = True"

subsection \<open>Type guards\<close>

definition ToolCallChatResponseContent_is :: "ChatResponseContent \<Rightarrow> bool" where
  "ToolCallChatResponseContent_is obj = (kind obj = toolCall_kind)"

text \<open>The guard of the text kind asks for a string field \<open>content\<close>; it yields that
  field when the guard holds.\<close>

fun TextChatResponseContent_content :: "ChatResponseContent \<Rightarrow> string option" where
  "TextChatResponseContent_content (TextChatResponseContentImpl c) = Some c"
| "TextChatResponseContent_content (PlainTextChatResponseContent c) = Some c"
| "TextChatResponseContent_content obj = None"

definition TextChatResponseContent_is :: "ChatResponseContent \<Rightarrow> bool" where
  "TextChatResponseContent_is obj = (TextChatResponseContent_content obj \<noteq> None)"

text \<open>The fields \<open>id\<close> and \<open>finished\<close> as read from a content object; an object
  without the field yields undefined.\<close>

fun content_id :: "ChatResponseContent \<Rightarrow> string option" where
  "content_id (ToolCallChatResponseContentImpl i n a f r) = i"
| "content_id (PlainToolCallChatResponseContent i n a f r m) = i"
| "content_id obj = None"

fun finished :: "bool option \<Rightarrow> bool" where
  "finished None = False"
| "finished (Some b) = b"

text \<open>\<open>arguments\<close>, \<open>finished\<close> and \<open>result\<close> of a tool call, \<open>finished\<close> as
  the boolean that the getter of the class returns.\<close>

fun content_arguments :: "ChatResponseContent \<Rightarrow> string option" where
  "content_arguments (ToolCallChatResponseContentImpl i n a f r) = a"
| "content_arguments (PlainToolCallChatResponseContent i n a f r m) = a"
| "content_arguments obj = None"

fun content_finished :: "ChatResponseContent \<Rightarrow> bool" where
  "content_finished (ToolCallChatResponseContentImpl i n a f r) = finished f"
| "content_finished (PlainToolCallChatResponseContent i n a f r m) = finished f"
| "content_finished obj = False"

fun content_result :: "ChatResponseContent \<Rightarrow> string option" where
  "content_result (ToolCallChatResponseContentImpl i n a f r) = r"
| "content_result (PlainToolCallChatResponseContent i n a f r m) = r"
| "content_result obj = None"

subsection \<open>Merging\<close>

text \<open>
  \<open>merge this next\<close> is the pair of the returned boolean and the receiver after the
  call. It is \<open>None\<close> where the receiver has no \<open>merge\<close> method and where \<open>next\<close> is not
  of the type the method declares for its parameter. The \<open>merge\<close> of the tool call
  class reads \<open>next.finished\<close>: the getter's boolean when \<open>next\<close> is an instance of the
  class, the field as it is when \<open>next\<close> is a plain object.
\<close>

fun merge :: "ChatResponseContent \<Rightarrow> ChatResponseContent \<Rightarrow> (bool \<times> ChatResponseContent) option" where
  "merge (TextChatResponseContentImpl c) next =
     (case TextChatResponseContent_content next of
        Some d \<Rightarrow> Some (True, TextChatResponseContentImpl (c @ d))
      | None \<Rightarrow> None)"
| "merge (MarkdownChatResponseContentImpl c) (MarkdownChatResponseContentImpl d) =
     Some (True, MarkdownChatResponseContentImpl (c @ d))"
| "merge (InformationalChatResponseContentImpl c) (InformationalChatResponseContentImpl d) =
     Some (True, InformationalChatResponseContentImpl (c @ d))"
| "merge (CodeChatResponseContentImpl c l p) (CodeChatResponseContentImpl d l' p') =
     Some (True, CodeChatResponseContentImpl (c @ d) l p)"
| "merge (ToolCallChatResponseContentImpl i n a f r) (ToolCallChatResponseContentImpl i' n' a' f' r') =
     (if i' = i then Some (True, ToolCallChatResponseContentImpl i n a (Some (finished f')) r')
      else if n' \<noteq> None then Some (False, ToolCallChatResponseContentImpl i n a f r)
      else if a' = None then Some (False, ToolCallChatResponseContentImpl i n a f r)
      else Some (True, ToolCallChatResponseContentImpl i n (Some (toString a @ toString a')) f r))"
| "merge (ToolCallChatResponseContentImpl i n a f r) (PlainToolCallChatResponseContent i' n' a' f' r' m') =
     (if i' = i then Some (True, ToolCallChatResponseContentImpl i n a f' r')
      else if n' \<noteq> None then Some (False, ToolCallChatResponseContentImpl i n a f r)
      else if a' = None then Some (False, ToolCallChatResponseContentImpl i n a f r)
      else Some (True, ToolCallChatResponseContentImpl i n (Some (toString a @ toString a')) f r))"
| "merge (PlainToolCallChatResponseContent i n a f r (Some b)) next =
     Some (b, PlainToolCallChatResponseContent i n a f r (Some b))"
| "merge (HorizontalLayoutChatResponseContentImpl cs) next =
     (case next of
        HorizontalLayoutChatResponseContentImpl ds \<Rightarrow>
          Some (True, HorizontalLayoutChatResponseContentImpl (cs @ ds))
      | _ \<Rightarrow> Some (True, HorizontalLayoutChatResponseContentImpl (cs @ [next])))"
| "merge (QuestionResponseContentImpl q os s) next =
     Some (False, QuestionResponseContentImpl q os s)"
| "merge this next = None"


section \<open>The content of a response (class ChatResponseImpl)\<close>

text \<open>
  The two cached representations are not set by the constructor: they are undefined
  (\<open>None\<close>) until \<open>_updateResponseRepresentation\<close> has run. \<open>contentFired\<close> counts
  the change notifications of the response.
\<close>

record ChatResponseImpl =
  content :: "ChatResponseContent list"
  responseRepresentation :: "string option"
  responseRepresentationForDisplay :: "string option"
  contentFired :: nat

definition newChatResponseImpl :: ChatResponseImpl where
  "newChatResponseImpl =
     \<lparr>content = [], responseRepresentation = None, responseRepresentationForDisplay = None,
      contentFired = 0\<rparr>"

datatype collect = collect_asString | collect_asDisplayString

text \<open>The function mapped over the content by \<open>responseRepresentationsToString\<close>. The
  diagnostic written for an object that cannot be mapped is not modelled.\<close>

definition representationOf :: "collect \<Rightarrow> ChatResponseContent \<Rightarrow> string option" where
  "representationOf col responseContent =
     (if col = collect_asDisplayString \<and> hasDisplayString responseContent
      then (case content_asDisplayString responseContent of Some r \<Rightarrow> r | None \<Rightarrow> None)
      else if hasAsString responseContent
      then (case content_asString responseContent of Some r \<Rightarrow> r | None \<Rightarrow> None)
      else if TextChatResponseContent_is responseContent
      then TextChatResponseContent_content responseContent
      else None)"

definition responseRepresentationsToString :: "ChatResponseContent list \<Rightarrow> collect \<Rightarrow> string" where
  "responseRepresentationsToString cs col =
     join (newline @ newline)
       (filter (\<lambda>text. text \<noteq> None \<and> text \<noteq> Some []) (map (representationOf col) cs))"

definition updateResponseRepresentation :: "ChatResponseImpl \<Rightarrow> ChatResponseImpl" where
  "updateResponseRepresentation s =
     s\<lparr>responseRepresentation :=
         Some (responseRepresentationsToString (content s) collect_asString),
       responseRepresentationForDisplay :=
         Some (responseRepresentationsToString (content s) collect_asDisplayString)\<rparr>"

text \<open>\<open>Array.prototype.find\<close> returns the first object that satisfies the predicate;
  the object is named here by its position in the array.\<close>

fun find_position :: "('a \<Rightarrow> bool) \<Rightarrow> 'a list \<Rightarrow> nat option" where
  "find_position p [] = None"
| "find_position p (x # xs) =
     (if p x then Some 0 else map_option Suc (find_position p xs))"

definition lastElement :: "ChatResponseImpl \<Rightarrow> ChatResponseContent option" where
  "lastElement s = (if length (content s) > 0 then Some (last (content s)) else None)"

definition push :: "ChatResponseImpl \<Rightarrow> ChatResponseContent \<Rightarrow> ChatResponseImpl" where
  "push s c = s\<lparr>content := content s @ [c]\<rparr>"

text \<open>
  \<open>doAddContent\<close> is \<open>None\<close> only where a \<open>merge\<close> is called with an argument outside
  the type of its parameter; a merge mutates its receiver in place, which is the update
  of the content sequence at the receiver's position.
\<close>

definition doAddContent :: "ChatResponseImpl \<Rightarrow> ChatResponseContent \<Rightarrow> ChatResponseImpl option" where
  "doAddContent s nextContent =
     map_option updateResponseRepresentation
      (if ToolCallChatResponseContent_is nextContent \<and> content_id nextContent \<noteq> None then
         (case find_position
                 (\<lambda>c. ToolCallChatResponseContent_is c \<and> content_id c = content_id nextContent)
                 (content s) of
            Some k \<Rightarrow>
              (let fittingTool = content s ! k
               in if hasMerge fittingTool
                  then map_option (\<lambda>(mergeSuccess, merged). s\<lparr>content := (content s)[k := merged]\<rparr>)
                         (merge fittingTool nextContent)
                  else Some s)
          | None \<Rightarrow> Some (push s nextContent))
       else
         (case lastElement s of
            Some l \<Rightarrow>
              (if kind l = kind nextContent \<and> hasMerge l then
                 (case merge l nextContent of
                    Some (mergeSuccess, merged) \<Rightarrow>
                      (let s' = s\<lparr>content := butlast (content s) @ [merged]\<rparr>
                       in if \<not> mergeSuccess then Some (push s' nextContent) else Some s')
                  | None \<Rightarrow> None)
               else Some (push s nextContent))
          | None \<Rightarrow> Some (push s nextContent)))"

definition fireContentChange :: "ChatResponseImpl \<Rightarrow> ChatResponseImpl" where
  "fireContentChange s = s\<lparr>contentFired := contentFired s + 1\<rparr>"

definition addContent :: "ChatResponseImpl \<Rightarrow> ChatResponseContent \<Rightarrow> ChatResponseImpl option" where
  "addContent s nextContent = map_option fireContentChange (doAddContent s nextContent)"

text \<open>One call of \<open>addContent\<close> per fragment, in order.\<close>

fun addContentEach :: "ChatResponseImpl \<Rightarrow> ChatResponseContent list \<Rightarrow> ChatResponseImpl option" where
  "addContentEach s [] = Some s"
| "addContentEach s (c # cs) =
     (case addContent s c of Some s' \<Rightarrow> addContentEach s' cs | None \<Rightarrow> None)"

fun doAddContents :: "ChatResponseImpl \<Rightarrow> ChatResponseContent list \<Rightarrow> ChatResponseImpl option" where
  "doAddContents s [] = Some s"
| "doAddContents s (c # cs) =
     (case doAddContent s c of Some s' \<Rightarrow> doAddContents s' cs | None \<Rightarrow> None)"

definition addContents :: "ChatResponseImpl \<Rightarrow> ChatResponseContent list \<Rightarrow> ChatResponseImpl option" where
  "addContents s contents = map_option fireContentChange (doAddContents s contents)"

definition responseContentChanged :: "ChatResponseImpl \<Rightarrow> ChatResponseImpl" where
  "responseContentChanged s = fireContentChange (updateResponseRepresentation s)"

definition asString :: "ChatResponseImpl \<Rightarrow> string option" where
  "asString s = responseRepresentation s"

definition asDisplayString :: "ChatResponseImpl \<Rightarrow> string option" where
  "asDisplayString s = responseRepresentationForDisplay s"


section \<open>Facts about findIndex\<close>

lemma findIndex_ge: "- 1 \<le> findIndex p xs"
  by (induction xs) (auto simp: Let_def)

lemma findIndex_neg_iff: "findIndex p xs < 0 \<longleftrightarrow> (\<forall>x \<in> set xs. \<not> p x)"
proof (induction xs)
  case Nil
  show ?case by simp
next
  case (Cons a xs)
  have "- 1 \<le> findIndex p xs" by (rule findIndex_ge)
  with Cons show ?case by (auto simp: Let_def)
qed

lemma findIndex_found:
  "0 \<le> findIndex p xs \<Longrightarrow>
     nat (findIndex p xs) < length xs \<and> p (xs ! nat (findIndex p xs)) \<and>
     (\<forall>j < nat (findIndex p xs). \<not> p (xs ! j))"
proof (induction xs)
  case Nil
  then show ?case by simp
next
  case (Cons a xs)
  show ?case
  proof (cases "p a")
    case True
    then show ?thesis by simp
  next
    case False
    with Cons.prems have nn: "0 \<le> findIndex p xs"
      by (auto simp: Let_def split: if_splits)
    from Cons.IH [OF nn] have ih:
      "nat (findIndex p xs) < length xs" "p (xs ! nat (findIndex p xs))"
      "\<forall>j < nat (findIndex p xs). \<not> p (xs ! j)" by auto
    from False nn have eq: "findIndex p (a # xs) = findIndex p xs + 1"
      by (simp add: Let_def)
    have n: "nat (findIndex p xs + 1) = Suc (nat (findIndex p xs))"
      using nn by simp
    show ?thesis
      unfolding eq n using ih False
      by (auto simp: nth_Cons split: nat.splits)
  qed
qed


section \<open>Replacing an element of a change set\<close>

text \<open>
  Claim C8. \<open>replaceElement e\<close> looks for the first element whose resource identifier
  equals that of \<open>e\<close>. When there is one, at position \<open>k\<close>, the call returns true, the
  element sequence is the old one with \<open>e\<close> at position \<open>k\<close> (same length, every other
  position untouched) and the change emitter has fired exactly once more. When there is
  none, the call returns false and the change set is unchanged (no notification), and
  \<open>addOrReplaceElement e\<close> appends \<open>e\<close> instead, with one notification.
\<close>

theorem C8_replaceElement:
  "((\<exists>x \<in> set (elements cs). uri x = uri e) \<longrightarrow>
      (let k = nat (findIndex (\<lambda>x. uri x = uri e) (elements cs))
       in k < length (elements cs) \<and> uri (elements cs ! k) = uri e \<and>
          (\<forall>j < k. uri (elements cs ! j) \<noteq> uri e) \<and>
          replaceElement cs e =
            (True, cs\<lparr>elements := (elements cs)[k := e], fired := fired cs + 1\<rparr>) \<and>
          length (elements (snd (replaceElement cs e))) = length (elements cs) \<and>
          elements (snd (replaceElement cs e)) ! k = e \<and>
          (\<forall>j < length (elements cs). j \<noteq> k \<longrightarrow>
             elements (snd (replaceElement cs e)) ! j = elements cs ! j))) \<and>
   ((\<forall>x \<in> set (elements cs). uri x \<noteq> uri e) \<longrightarrow>
      replaceElement cs e = (False, cs) \<and>
      addOrReplaceElement cs e =
        cs\<lparr>elements := elements cs @ [e], fired := fired cs + 1\<rparr>)"
proof (intro conjI impI)
  assume ex: "\<exists>x \<in> set (elements cs). uri x = uri e"
  let ?i = "findIndex (\<lambda>x. uri x = uri e) (elements cs)"
  from ex have nn: "0 \<le> ?i"
    using findIndex_neg_iff [of "\<lambda>x. uri x = uri e" "elements cs"] by fastforce
  from findIndex_found [OF nn] have
    lt: "nat ?i < length (elements cs)" and
    hit: "uri (elements cs ! nat ?i) = uri e" and
    first: "\<forall>j < nat ?i. uri (elements cs ! j) \<noteq> uri e" by auto
  from nn have re: "replaceElement cs e =
      (True, cs\<lparr>elements := (elements cs)[nat ?i := e], fired := fired cs + 1\<rparr>)"
    by (simp add: replaceElement_def notifyChange_def Let_def)
  show "let k = nat ?i
       in k < length (elements cs) \<and> uri (elements cs ! k) = uri e \<and>
          (\<forall>j < k. uri (elements cs ! j) \<noteq> uri e) \<and>
          replaceElement cs e =
            (True, cs\<lparr>elements := (elements cs)[k := e], fired := fired cs + 1\<rparr>) \<and>
          length (elements (snd (replaceElement cs e))) = length (elements cs) \<and>
          elements (snd (replaceElement cs e)) ! k = e \<and>
          (\<forall>j < length (elements cs). j \<noteq> k \<longrightarrow>
             elements (snd (replaceElement cs e)) ! j = elements cs ! j)"
    unfolding Let_def re using lt hit first by simp
next
  assume no: "\<forall>x \<in> set (elements cs). uri x \<noteq> uri e"
  then have neg: "findIndex (\<lambda>x. uri x = uri e) (elements cs) < 0"
    using findIndex_neg_iff [of "\<lambda>x. uri x = uri e" "elements cs"] by simp
  then show "replaceElement cs e = (False, cs)"
    by (simp add: replaceElement_def Let_def)
  then show "addOrReplaceElement cs e =
      cs\<lparr>elements := elements cs @ [e], fired := fired cs + 1\<rparr>"
    by (simp add: addOrReplaceElement_def addElement_def addElements_def notifyChange_def)
qed

theorem C8_replaceElement_witness:
  "replaceElement
     (newChangeSetImpl ''changes''
        [\<lparr>uri = ''file:///a.ts'', elementName = None, icon = None, additionalInfo = None,
          elementState = Some pending, elementType = Some modify\<rparr>,
         \<lparr>uri = ''file:///b.ts'', elementName = None, icon = None, additionalInfo = None,
          elementState = Some pending, elementType = Some add\<rparr>])
     \<lparr>uri = ''file:///b.ts'', elementName = Some ''b'', icon = None, additionalInfo = None,
      elementState = Some applied, elementType = Some add\<rparr> =
   (True,
    \<lparr>title = ''changes'',
     elements =
       [\<lparr>uri = ''file:///a.ts'', elementName = None, icon = None, additionalInfo = None,
         elementState = Some pending, elementType = Some modify\<rparr>,
        \<lparr>uri = ''file:///b.ts'', elementName = Some ''b'', icon = None, additionalInfo = None,
         elementState = Some applied, elementType = Some add\<rparr>],
     listeners = [], fired = 2\<rparr>) \<and>
   replaceElement (newChangeSetImpl ''changes'' [])
     \<lparr>uri = ''file:///b.ts'', elementName = Some ''b'', icon = None, additionalInfo = None,
      elementState = Some applied, elementType = Some add\<rparr> =
   (False, newChangeSetImpl ''changes'' []) \<and>
   elements (addOrReplaceElement (newChangeSetImpl ''changes'' [])
     \<lparr>uri = ''file:///b.ts'', elementName = Some ''b'', icon = None, additionalInfo = None,
      elementState = Some applied, elementType = Some add\<rparr>) =
     [\<lparr>uri = ''file:///b.ts'', elementName = Some ''b'', icon = None, additionalInfo = None,
      elementState = Some applied, elementType = Some add\<rparr>]"
  using C8_replaceElement [of
     "newChangeSetImpl ''changes''
        [\<lparr>uri = ''file:///a.ts'', elementName = None, icon = None, additionalInfo = None,
          elementState = Some pending, elementType = Some modify\<rparr>,
         \<lparr>uri = ''file:///b.ts'', elementName = None, icon = None, additionalInfo = None,
          elementState = Some pending, elementType = Some add\<rparr>]"
     "\<lparr>uri = ''file:///b.ts'', elementName = Some ''b'', icon = None, additionalInfo = None,
      elementState = Some applied, elementType = Some add\<rparr>"]
    C8_replaceElement [of "newChangeSetImpl ''changes'' []"
     "\<lparr>uri = ''file:///b.ts'', elementName = Some ''b'', icon = None, additionalInfo = None,
      elementState = Some applied, elementType = Some add\<rparr>"]
  by (simp add: newChangeSetImpl_def addElements_def notifyChange_def Let_def)


section \<open>The lifecycle of a response\<close>

text \<open>
  Claim C5. \<open>cancel\<close> leaves the response canceled and complete and not waiting for
  input, and fires exactly one change notification. A \<open>complete\<close> after it changes none
  of the four flags \<open>isComplete\<close>, \<open>isCanceled\<close>, \<open>isWaitingForInput\<close> and
  \<open>isError\<close> (it does fire one more notification).
\<close>

theorem C5_cancel_then_complete:
  "isCanceled (cancel r) \<and> isComplete (cancel r) \<and> \<not> isWaitingForInput (cancel r) \<and>
   responseFired (cancel r) = responseFired r + 1 \<and>
   isComplete (complete (cancel r)) = isComplete (cancel r) \<and>
   isCanceled (complete (cancel r)) = isCanceled (cancel r) \<and>
   isWaitingForInput (complete (cancel r)) = isWaitingForInput (cancel r) \<and>
   isError (complete (cancel r)) = isError (cancel r)"
  by (simp add: cancel_def complete_def isCanceled_def)


section \<open>Setting and removing the change set of a conversation\<close>

text \<open>
  Claim C6. From any state of the conversation model, \<open>setChangeSet A\<close> followed by
  \<open>setChangeSet B\<close> fires exactly the two events \<open>setChangeSet A\<close> and
  \<open>setChangeSet B\<close>, so no \<open>deleteChangeSet\<close>; a following \<open>setChangeSet undefined\<close>
  fires exactly one event, a \<open>deleteChangeSet\<close>.
\<close>

theorem C6_setChangeSet_events:
  "events (setChangeSet (setChangeSet m (Some a)) (Some b)) =
     events m @ [ChatSetChangeSetEvent a, ChatSetChangeSetEvent b] \<and>
   events (setChangeSet (setChangeSet (setChangeSet m (Some a)) (Some b)) None) =
     events (setChangeSet (setChangeSet m (Some a)) (Some b)) @ [ChatSetChangeDeleteEvent]"
  by (simp add: setChangeSet_def fire_def Let_def)

text \<open>
  Claim C9. \<open>removeChangeSet\<close> on a model without an active change set returns the
  model as it is: no event, no change of state. With an active change set it clears the
  reference and fires one \<open>removeChangeSet\<close> event that carries the removed change set.
\<close>

theorem C9_removeChangeSet:
  "(changeSet m = None \<longrightarrow> removeChangeSet m = m) \<and>
   (\<forall>a. changeSet m = Some a \<longrightarrow>
      removeChangeSet m =
        m\<lparr>changeSet := None, events := events m @ [ChatRemoveChangeSetEvent a]\<rparr>)"
  by (simp add: removeChangeSet_def fire_def)

theorem C9_removeChangeSet_witness:
  "removeChangeSet (newMutableChatModel (\<lambda>a. newChangeSetImpl ''changes'' [])) =
     newMutableChatModel (\<lambda>a. newChangeSetImpl ''changes'' []) \<and>
   changeSet (setChangeSet (newMutableChatModel (\<lambda>a. newChangeSetImpl ''changes'' [])) (Some 0)) = Some 0 \<and>
   events (removeChangeSet
      (setChangeSet (newMutableChatModel (\<lambda>a. newChangeSetImpl ''changes'' [])) (Some 0))) =
     [ChatSetChangeSetEvent 0, ChatRemoveChangeSetEvent 0] \<and>
   changeSet (removeChangeSet
      (setChangeSet (newMutableChatModel (\<lambda>a. newChangeSetImpl ''changes'' [])) (Some 0))) = None"
  using C9_removeChangeSet [of "newMutableChatModel (\<lambda>a. newChangeSetImpl ''changes'' [])"]
    C9_removeChangeSet [of "setChangeSet (newMutableChatModel (\<lambda>a. newChangeSetImpl ''changes'' [])) (Some 0)"]
  by (simp add: newMutableChatModel_def setChangeSet_def fire_def Let_def)

text \<open>
  Claim C7 says that a change set that has been replaced no longer causes
  \<open>updateChangeSet\<close> events. \<open>setChangeSet\<close> disposes the subscription on the old
  change set only when it is given undefined; when it is given a change set, the old
  subscription stays registered. On a new conversation model, after \<open>setChangeSet A\<close>
  and \<open>setChangeSet B\<close>, a notification of \<open>A\<close> fires an \<open>updateChangeSet\<close> event,
  which carries \<open>B\<close>.
\<close>

theorem C7_replaced_change_set_still_updates:
  "events (notifyChangeAt
      (setChangeSet (setChangeSet (newMutableChatModel (\<lambda>a. newChangeSetImpl ''changes'' []))
         (Some 0)) (Some 1)) 0) =
     [ChatSetChangeSetEvent 0, ChatSetChangeSetEvent 1, ChatUpdateChangeSetEvent (Some 1)]"
  by (simp add: notifyChangeAt_def setChangeSet_def newMutableChatModel_def fire_def Let_def
      newChangeSetImpl_def addElements_def notifyChange_def onDidChange_def
      changeSetListenerCallback_def)

text \<open>The same from any state of the model, for two different change sets: the callback
  registered for \<open>A\<close> is still among the listeners of \<open>A\<close>, so a notification of
  \<open>A\<close> fires one \<open>updateChangeSet\<close> more than \<open>A\<close> had listeners before.\<close>

lemma fold_changeSetListenerCallback:
  "fold (\<lambda>l m'. changeSetListenerCallback m') ls m =
     m\<lparr>events := events m @ replicate (length ls) (ChatUpdateChangeSetEvent (changeSet m))\<rparr>"
proof (induction ls arbitrary: m)
  case Nil
  show ?case by simp
next
  case (Cons l ls)
  have "fold (\<lambda>l m'. changeSetListenerCallback m') (l # ls) m =
      fold (\<lambda>l m'. changeSetListenerCallback m') ls (changeSetListenerCallback m)"
    by simp
  also have "\<dots> = (changeSetListenerCallback m)
      \<lparr>events := events (changeSetListenerCallback m) @
         replicate (length ls) (ChatUpdateChangeSetEvent (changeSet (changeSetListenerCallback m)))\<rparr>"
    by (rule Cons.IH)
  also have "\<dots> = m\<lparr>events := events m @
      replicate (length (l # ls)) (ChatUpdateChangeSetEvent (changeSet m))\<rparr>"
    by (simp add: changeSetListenerCallback_def fire_def)
  finally show ?case .
qed

lemma replaced_change_set_keeps_listener:
  "a \<noteq> b \<Longrightarrow>
     events (notifyChangeAt (setChangeSet (setChangeSet m (Some a)) (Some b)) a) =
       events m @ [ChatSetChangeSetEvent a, ChatSetChangeSetEvent b] @
       replicate (Suc (length (listeners (changeSets m a)))) (ChatUpdateChangeSetEvent (Some b))"
  by (simp add: notifyChangeAt_def fold_changeSetListenerCallback)
    (simp add: setChangeSet_def fire_def Let_def onDidChange_def notifyChange_def
      replicate_append_same)

text \<open>When the change set is unset in between, the subscription is disposed and the
  replaced change set is silent.\<close>

lemma disposed_change_set_is_silent:
  "events (notifyChangeAt
      (setChangeSet (setChangeSet (setChangeSet
         (newMutableChatModel (\<lambda>a. newChangeSetImpl ''changes'' []))
         (Some 0)) None) (Some 1)) 0) =
     [ChatSetChangeSetEvent 0, ChatSetChangeDeleteEvent, ChatSetChangeSetEvent 1]"
  by (simp add: notifyChangeAt_def setChangeSet_def newMutableChatModel_def fire_def Let_def
      newChangeSetImpl_def addElements_def notifyChange_def onDidChange_def
      changeSetListenerCallback_def)


section \<open>Facts about finding and merging content\<close>

lemma find_position_None: "find_position p xs = None \<longleftrightarrow> (\<forall>x \<in> set xs. \<not> p x)"
  by (induction xs) auto

lemma find_position_Some:
  "find_position p xs = Some k \<Longrightarrow>
     k < length xs \<and> p (xs ! k) \<and> (\<forall>j < k. \<not> p (xs ! j))"
proof (induction xs arbitrary: k)
  case Nil
  then show ?case by simp
next
  case (Cons a xs)
  show ?case
  proof (cases "p a")
    case True
    with Cons.prems show ?thesis by simp
  next
    case False
    with Cons.prems obtain k' where k': "find_position p xs = Some k'" "k = Suc k'"
      by auto
    from Cons.IH [OF k'(1)] False k'(2) show ?thesis
      by (auto simp: nth_Cons split: nat.splits)
  qed
qed

text \<open>Where \<open>doAddContent\<close> calls it, \<open>merge\<close> is defined; a merge that declines
  leaves its receiver as it was, and no merge changes the kind of its receiver.\<close>

lemma merge_plain_tool_call:
  "merge (PlainToolCallChatResponseContent i n a f r m) next =
     (case m of None \<Rightarrow> None
      | Some b \<Rightarrow> Some (b, PlainToolCallChatResponseContent i n a f r (Some b)))"
  by (cases m) simp_all

lemma merge_defined:
  "kind l = kind n \<Longrightarrow> hasMerge l \<Longrightarrow> \<exists>ok m. merge l n = Some (ok, m)"
  by (cases l; cases n; auto simp: merge_plain_tool_call)

lemma merge_declined_unchanged: "merge l n = Some (False, m) \<Longrightarrow> m = l"
  by (cases l; cases n; auto simp: merge_plain_tool_call split: if_splits option.splits)

lemma merge_keeps_kind: "merge l n = Some (ok, m) \<Longrightarrow> kind m = kind l"
  by (cases l; cases n; auto simp: merge_plain_tool_call split: if_splits option.splits)

lemma merge_needs_hasMerge: "merge l n = Some (ok, m) \<Longrightarrow> hasMerge l"
  by (cases l; cases n; auto simp: merge_plain_tool_call split: if_splits option.splits)

lemma content_updateResponseRepresentation [simp]:
  "content (updateResponseRepresentation s) = content s"
  by (simp add: updateResponseRepresentation_def)

lemma content_push [simp]: "content (push s c) = content s @ [c]"
  by (simp add: push_def)

text \<open>Under equal ids the \<open>merge\<close> of the tool call class takes over \<open>finished\<close> and
  \<open>result\<close> of the fragment, keeps everything else and returns true.\<close>

lemma merge_tool_call_by_id:
  "ToolCallChatResponseContent_is F \<Longrightarrow> content_id F = i \<Longrightarrow>
     \<exists>f'. merge (ToolCallChatResponseContentImpl i n a f r) F =
       Some (True, ToolCallChatResponseContentImpl i n a f' (content_result F)) \<and>
       finished f' = content_finished F"
  by (cases F) (auto simp: ToolCallChatResponseContent_is_def)


section \<open>Adding a fragment to a response\<close>

text \<open>
  Claim C1. Let \<open>F\<close> be a fragment of the tool call kind that carries an id \<open>i\<close> (any
  string, so every non-empty one). \<open>doAddContent\<close> looks through the whole content
  sequence for an element of the tool call kind with the id \<open>i\<close>. When there is one, the
  first of them, at position \<open>k\<close>, has its \<open>merge\<close> called with \<open>F\<close>, and whatever
  that merge returns, the sequence is the old one with the merged element at position
  \<open>k\<close>; an element that has no \<open>merge\<close> is left as it is. Either way the sequence
  keeps its length and every other position, so \<open>F\<close> is not appended. A match that is
  an instance of the tool call class takes over \<open>finished\<close> and \<open>result\<close> of \<open>F\<close>. When
  no element matches, \<open>F\<close> is appended.
\<close>

theorem C1_tool_call_found_by_id:
  assumes tool: "ToolCallChatResponseContent_is F" and id: "content_id F = Some i"
  shows
  "((\<exists>c \<in> set (content s). ToolCallChatResponseContent_is c \<and> content_id c = Some i) \<longrightarrow>
      (\<exists>k. k < length (content s) \<and>
         ToolCallChatResponseContent_is (content s ! k) \<and> content_id (content s ! k) = Some i \<and>
         (\<forall>j < k. \<not> (ToolCallChatResponseContent_is (content s ! j) \<and>
                      content_id (content s ! j) = Some i)) \<and>
         (hasMerge (content s ! k) \<longrightarrow>
            (\<exists>mergeSuccess merged.
               merge (content s ! k) F = Some (mergeSuccess, merged) \<and>
               map_option content (doAddContent s F) = Some ((content s)[k := merged]))) \<and>
         (\<not> hasMerge (content s ! k) \<longrightarrow>
            map_option content (doAddContent s F) = Some (content s)) \<and>
         (\<forall>n0 a0 f0 r0. content s ! k = ToolCallChatResponseContentImpl (Some i) n0 a0 f0 r0 \<longrightarrow>
            (\<exists>f'. finished f' = content_finished F \<and>
               map_option content (doAddContent s F) =
                 Some ((content s)
                   [k := ToolCallChatResponseContentImpl (Some i) n0 a0 f' (content_result F)]))) \<and>
         (\<exists>c'. map_option content (doAddContent s F) = Some c' \<and>
            length c' = length (content s) \<and>
            (\<forall>j < length (content s). j \<noteq> k \<longrightarrow> c' ! j = content s ! j)))) \<and>
   ((\<forall>c \<in> set (content s). \<not> (ToolCallChatResponseContent_is c \<and> content_id c = Some i)) \<longrightarrow>
      map_option content (doAddContent s F) = Some (content s @ [F]))"
proof (intro conjI impI)
  let ?P = "\<lambda>c. ToolCallChatResponseContent_is c \<and> content_id c = Some i"
  assume "\<exists>c \<in> set (content s). ?P c"
  then have "find_position ?P (content s) \<noteq> None"
    using find_position_None [of ?P "content s"] by blast
  then obtain k where k: "find_position ?P (content s) = Some k" by auto
  from find_position_Some [OF k] have
    lt: "k < length (content s)" and hit: "?P (content s ! k)" and
    first: "\<forall>j < k. \<not> ?P (content s ! j)" by auto
  have branch: "map_option content (doAddContent s F) =
      (if hasMerge (content s ! k)
       then map_option (\<lambda>(mergeSuccess, merged). (content s)[k := merged]) (merge (content s ! k) F)
       else Some (content s))"
    using tool id k
    by (cases "merge (content s ! k) F")
       (auto simp: doAddContent_def Let_def split: prod.splits)
  have with_merge: "hasMerge (content s ! k) \<longrightarrow>
      (\<exists>mergeSuccess merged.
         merge (content s ! k) F = Some (mergeSuccess, merged) \<and>
         map_option content (doAddContent s F) = Some ((content s)[k := merged]))"
  proof
    assume hm: "hasMerge (content s ! k)"
    from hit tool have "kind (content s ! k) = kind F"
      by (simp add: ToolCallChatResponseContent_is_def)
    from merge_defined [OF this hm] obtain ok m where
      m: "merge (content s ! k) F = Some (ok, m)" by blast
    with branch hm have "map_option content (doAddContent s F) = Some ((content s)[k := m])"
      by simp
    with m show "\<exists>mergeSuccess merged.
         merge (content s ! k) F = Some (mergeSuccess, merged) \<and>
         map_option content (doAddContent s F) = Some ((content s)[k := merged])"
      by blast
  qed
  have without_merge: "\<not> hasMerge (content s ! k) \<longrightarrow>
      map_option content (doAddContent s F) = Some (content s)"
    using branch by simp
  have by_class: "\<forall>n0 a0 f0 r0.
      content s ! k = ToolCallChatResponseContentImpl (Some i) n0 a0 f0 r0 \<longrightarrow>
      (\<exists>f'. finished f' = content_finished F \<and>
         map_option content (doAddContent s F) =
           Some ((content s)
             [k := ToolCallChatResponseContentImpl (Some i) n0 a0 f' (content_result F)]))"
  proof (intro allI impI)
    fix n0 a0 f0 r0
    assume el: "content s ! k = ToolCallChatResponseContentImpl (Some i) n0 a0 f0 r0"
    from merge_tool_call_by_id [OF tool id, of n0 a0 f0 r0] obtain f' where
      m: "merge (ToolCallChatResponseContentImpl (Some i) n0 a0 f0 r0) F =
            Some (True, ToolCallChatResponseContentImpl (Some i) n0 a0 f' (content_result F))"
      and f': "finished f' = content_finished F" by blast
    from branch el m have "map_option content (doAddContent s F) =
        Some ((content s)[k := ToolCallChatResponseContentImpl (Some i) n0 a0 f' (content_result F)])"
      by simp
    with f' show "\<exists>f'. finished f' = content_finished F \<and>
         map_option content (doAddContent s F) =
           Some ((content s)
             [k := ToolCallChatResponseContentImpl (Some i) n0 a0 f' (content_result F)])"
      by blast
  qed
  have consumed: "\<exists>c'. map_option content (doAddContent s F) = Some c' \<and>
      length c' = length (content s) \<and>
      (\<forall>j < length (content s). j \<noteq> k \<longrightarrow> c' ! j = content s ! j)"
  proof (cases "hasMerge (content s ! k)")
    case True
    with with_merge obtain ok m where
      m: "map_option content (doAddContent s F) = Some ((content s)[k := m])" by blast
    have "length ((content s)[k := m]) = length (content s) \<and>
        (\<forall>j < length (content s). j \<noteq> k \<longrightarrow> (content s)[k := m] ! j = content s ! j)"
      by simp
    with m show ?thesis by blast
  next
    case False
    with without_merge have "map_option content (doAddContent s F) = Some (content s)"
      by simp
    then show ?thesis by blast
  qed
  from lt hit first with_merge without_merge by_class consumed
  show "\<exists>k. k < length (content s) \<and>
         ToolCallChatResponseContent_is (content s ! k) \<and> content_id (content s ! k) = Some i \<and>
         (\<forall>j < k. \<not> (ToolCallChatResponseContent_is (content s ! j) \<and>
                      content_id (content s ! j) = Some i)) \<and>
         (hasMerge (content s ! k) \<longrightarrow>
            (\<exists>mergeSuccess merged.
               merge (content s ! k) F = Some (mergeSuccess, merged) \<and>
               map_option content (doAddContent s F) = Some ((content s)[k := merged]))) \<and>
         (\<not> hasMerge (content s ! k) \<longrightarrow>
            map_option content (doAddContent s F) = Some (content s)) \<and>
         (\<forall>n0 a0 f0 r0. content s ! k = ToolCallChatResponseContentImpl (Some i) n0 a0 f0 r0 \<longrightarrow>
            (\<exists>f'. finished f' = content_finished F \<and>
               map_option content (doAddContent s F) =
                 Some ((content s)
                   [k := ToolCallChatResponseContentImpl (Some i) n0 a0 f' (content_result F)]))) \<and>
         (\<exists>c'. map_option content (doAddContent s F) = Some c' \<and>
            length c' = length (content s) \<and>
            (\<forall>j < length (content s). j \<noteq> k \<longrightarrow> c' ! j = content s ! j))"
    by (intro exI [of _ k] conjI) simp_all
next
  let ?P = "\<lambda>c. ToolCallChatResponseContent_is c \<and> content_id c = Some i"
  assume "\<forall>c \<in> set (content s). \<not> ?P c"
  then have "find_position ?P (content s) = None"
    using find_position_None [of ?P "content s"] by blast
  with tool id show "map_option content (doAddContent s F) = Some (content s @ [F])"
    by (simp add: doAddContent_def)
qed

theorem C1_tool_call_found_by_id_witness:
  "map_option content
     (doAddContent
        \<lparr>content = [TextChatResponseContentImpl ''hi'',
                    ToolCallChatResponseContentImpl (Some ''t1'') (Some ''foo'') None None None,
                    TextChatResponseContentImpl ''done''],
         responseRepresentation = None, responseRepresentationForDisplay = None,
         contentFired = 0\<rparr>
        (ToolCallChatResponseContentImpl (Some ''t1'') None None (Some True) (Some ''ok''))) =
     Some [TextChatResponseContentImpl ''hi'',
           ToolCallChatResponseContentImpl (Some ''t1'') (Some ''foo'') None (Some True) (Some ''ok''),
           TextChatResponseContentImpl ''done''] \<and>
   merge (PlainToolCallChatResponseContent (Some ''t1'') (Some ''foo'') None None None (Some False))
     (ToolCallChatResponseContentImpl (Some ''t1'') None None (Some True) (Some ''ok'')) =
     Some (False,
       PlainToolCallChatResponseContent (Some ''t1'') (Some ''foo'') None None None (Some False)) \<and>
   map_option content
     (doAddContent
        \<lparr>content = [PlainToolCallChatResponseContent (Some ''t1'') (Some ''foo'') None None None
                      (Some False),
                    TextChatResponseContentImpl ''done''],
         responseRepresentation = None, responseRepresentationForDisplay = None,
         contentFired = 0\<rparr>
        (ToolCallChatResponseContentImpl (Some ''t1'') None None (Some True) (Some ''ok''))) =
     Some [PlainToolCallChatResponseContent (Some ''t1'') (Some ''foo'') None None None (Some False),
           TextChatResponseContentImpl ''done''] \<and>
   \<not> hasMerge (PlainToolCallChatResponseContent (Some ''t1'') (Some ''foo'') None None None None) \<and>
   map_option content
     (doAddContent
        \<lparr>content = [PlainToolCallChatResponseContent (Some ''t1'') (Some ''foo'') None None None None,
                    TextChatResponseContentImpl ''done''],
         responseRepresentation = None, responseRepresentationForDisplay = None,
         contentFired = 0\<rparr>
        (ToolCallChatResponseContentImpl (Some ''t1'') None None (Some True) (Some ''ok''))) =
     Some [PlainToolCallChatResponseContent (Some ''t1'') (Some ''foo'') None None None None,
           TextChatResponseContentImpl ''done''] \<and>
   map_option content
     (doAddContent
        \<lparr>content = [TextChatResponseContentImpl ''hi'',
                    ToolCallChatResponseContentImpl (Some ''t1'') (Some ''foo'') None None None,
                    TextChatResponseContentImpl ''done''],
         responseRepresentation = None, responseRepresentationForDisplay = None,
         contentFired = 0\<rparr>
        (ToolCallChatResponseContentImpl (Some ''t2'') (Some ''bar'') None None None)) =
     Some [TextChatResponseContentImpl ''hi'',
           ToolCallChatResponseContentImpl (Some ''t1'') (Some ''foo'') None None None,
           TextChatResponseContentImpl ''done'',
           ToolCallChatResponseContentImpl (Some ''t2'') (Some ''bar'') None None None]"
  using
    C1_tool_call_found_by_id [of
      "ToolCallChatResponseContentImpl (Some ''t1'') None None (Some True) (Some ''ok'')" "''t1''"
      "\<lparr>content = [TextChatResponseContentImpl ''hi'',
                    ToolCallChatResponseContentImpl (Some ''t1'') (Some ''foo'') None None None,
                    TextChatResponseContentImpl ''done''],
         responseRepresentation = None, responseRepresentationForDisplay = None,
         contentFired = 0\<rparr>"]
    C1_tool_call_found_by_id [of
      "ToolCallChatResponseContentImpl (Some ''t1'') None None (Some True) (Some ''ok'')" "''t1''"
      "\<lparr>content = [PlainToolCallChatResponseContent (Some ''t1'') (Some ''foo'') None None None
                      (Some False),
                    TextChatResponseContentImpl ''done''],
         responseRepresentation = None, responseRepresentationForDisplay = None,
         contentFired = 0\<rparr>"]
    C1_tool_call_found_by_id [of
      "ToolCallChatResponseContentImpl (Some ''t1'') None None (Some True) (Some ''ok'')" "''t1''"
      "\<lparr>content = [PlainToolCallChatResponseContent (Some ''t1'') (Some ''foo'') None None None None,
                    TextChatResponseContentImpl ''done''],
         responseRepresentation = None, responseRepresentationForDisplay = None,
         contentFired = 0\<rparr>"]
    C1_tool_call_found_by_id [of
      "ToolCallChatResponseContentImpl (Some ''t2'') (Some ''bar'') None None None" "''t2''"
      "\<lparr>content = [TextChatResponseContentImpl ''hi'',
                    ToolCallChatResponseContentImpl (Some ''t1'') (Some ''foo'') None None None,
                    TextChatResponseContentImpl ''done''],
         responseRepresentation = None, responseRepresentationForDisplay = None,
         contentFired = 0\<rparr>"]
  by (simp add: ToolCallChatResponseContent_is_def doAddContent_def Let_def push_def)

text \<open>
  Claim C3. Let \<open>F\<close> be a fragment that is not a tool call carrying an id. On an empty
  sequence \<open>F\<close> is appended. Otherwise only the last element is looked at: when its kind
  differs from that of \<open>F\<close> or it has no \<open>merge\<close>, \<open>F\<close> is appended; when the kinds are
  equal and it has a \<open>merge\<close>, that merge is called with \<open>F\<close>, and if it returns true the
  last element is replaced by the merged one and the length stays the same, while if it
  returns false the last element is unchanged and \<open>F\<close> is appended.
\<close>

theorem C3_merge_with_last_only:
  assumes other: "\<not> (ToolCallChatResponseContent_is F \<and> content_id F \<noteq> None)"
  shows
  "(content s = [] \<longrightarrow> map_option content (doAddContent s F) = Some [F]) \<and>
   (content s \<noteq> [] \<and> (kind (last (content s)) \<noteq> kind F \<or> \<not> hasMerge (last (content s))) \<longrightarrow>
      map_option content (doAddContent s F) = Some (content s @ [F])) \<and>
   (content s \<noteq> [] \<and> kind (last (content s)) = kind F \<and> hasMerge (last (content s)) \<longrightarrow>
      (\<exists>mergeSuccess merged.
         merge (last (content s)) F = Some (mergeSuccess, merged) \<and>
         (mergeSuccess \<longrightarrow>
            map_option content (doAddContent s F) = Some (butlast (content s) @ [merged]) \<and>
            length (butlast (content s) @ [merged]) = length (content s)) \<and>
         (\<not> mergeSuccess \<longrightarrow>
            merged = last (content s) \<and>
            map_option content (doAddContent s F) = Some (content s @ [F]))))"
proof (intro conjI impI)
  assume "content s = []"
  with other show "map_option content (doAddContent s F) = Some [F]"
    by (auto simp: doAddContent_def lastElement_def)
next
  assume "content s \<noteq> [] \<and> (kind (last (content s)) \<noteq> kind F \<or> \<not> hasMerge (last (content s)))"
  with other show "map_option content (doAddContent s F) = Some (content s @ [F])"
    by (auto simp: doAddContent_def lastElement_def)
next
  assume a: "content s \<noteq> [] \<and> kind (last (content s)) = kind F \<and> hasMerge (last (content s))"
  then obtain ok merged where m: "merge (last (content s)) F = Some (ok, merged)"
    using merge_defined by blast
  have le: "lastElement s = Some (last (content s))"
    using a by (simp add: lastElement_def)
  show "\<exists>mergeSuccess merged.
         merge (last (content s)) F = Some (mergeSuccess, merged) \<and>
         (mergeSuccess \<longrightarrow>
            map_option content (doAddContent s F) = Some (butlast (content s) @ [merged]) \<and>
            length (butlast (content s) @ [merged]) = length (content s)) \<and>
         (\<not> mergeSuccess \<longrightarrow>
            merged = last (content s) \<and>
            map_option content (doAddContent s F) = Some (content s @ [F]))"
  proof (cases ok)
    case True
    have "map_option content (doAddContent s F) = Some (butlast (content s) @ [merged])"
      using other a m le True by (auto simp: doAddContent_def Let_def)
    moreover have "length (butlast (content s) @ [merged]) = length (content s)"
      using a by simp
    ultimately show ?thesis using m True by blast
  next
    case False
    with m have "merge (last (content s)) F = Some (False, merged)" by simp
    then have same: "merged = last (content s)"
      by (rule merge_declined_unchanged)
    have "map_option content (doAddContent s F) = Some (content s @ [F])"
      using other a m le False same by (auto simp: doAddContent_def Let_def)
    with m False same show ?thesis by blast
  qed
qed

theorem C3_merge_with_last_only_witness:
  "map_option content
     (doAddContent
        \<lparr>content = [TextChatResponseContentImpl ''a''],
         responseRepresentation = None, responseRepresentationForDisplay = None,
         contentFired = 0\<rparr>
        (TextChatResponseContentImpl ''b'')) = Some [TextChatResponseContentImpl ''ab''] \<and>
   map_option content
     (doAddContent
        \<lparr>content = [TextChatResponseContentImpl ''a''],
         responseRepresentation = None, responseRepresentationForDisplay = None,
         contentFired = 0\<rparr>
        (CodeChatResponseContentImpl ''x = 1'' None None)) =
     Some [TextChatResponseContentImpl ''a'', CodeChatResponseContentImpl ''x = 1'' None None] \<and>
   map_option content
     (doAddContent
        \<lparr>content = [QuestionResponseContentImpl ''q'' [] None],
         responseRepresentation = None, responseRepresentationForDisplay = None,
         contentFired = 0\<rparr>
        (QuestionResponseContentImpl ''r'' [] None)) =
     Some [QuestionResponseContentImpl ''q'' [] None, QuestionResponseContentImpl ''r'' [] None] \<and>
   map_option content (doAddContent newChatResponseImpl (TextChatResponseContentImpl ''b'')) =
     Some [TextChatResponseContentImpl ''b'']"
  using
    C3_merge_with_last_only [of "TextChatResponseContentImpl ''b''"
      "\<lparr>content = [TextChatResponseContentImpl ''a''],
         responseRepresentation = None, responseRepresentationForDisplay = None,
         contentFired = 0\<rparr>"]
    C3_merge_with_last_only [of "CodeChatResponseContentImpl ''x = 1'' None None"
      "\<lparr>content = [TextChatResponseContentImpl ''a''],
         responseRepresentation = None, responseRepresentationForDisplay = None,
         contentFired = 0\<rparr>"]
    C3_merge_with_last_only [of "QuestionResponseContentImpl ''r'' [] None"
      "\<lparr>content = [QuestionResponseContentImpl ''q'' [] None],
         responseRepresentation = None, responseRepresentationForDisplay = None,
         contentFired = 0\<rparr>"]
    C3_merge_with_last_only [of "TextChatResponseContentImpl ''b''" newChatResponseImpl]
  by (auto simp: ToolCallChatResponseContent_is_def newChatResponseImpl_def)

text \<open>\<open>doAddContent\<close> always returns: no merge is called outside the type of its
  parameter.\<close>

lemma doAddContent_total: "\<exists>s'. doAddContent s F = Some s'"
proof (cases "ToolCallChatResponseContent_is F \<and> content_id F \<noteq> None")
  case True
  then obtain i where F: "ToolCallChatResponseContent_is F" "content_id F = Some i"
    by auto
  show ?thesis
  proof (cases "find_position
      (\<lambda>c. ToolCallChatResponseContent_is c \<and> content_id c = Some i) (content s)")
    case None
    with F show ?thesis
      by (simp add: doAddContent_def)
  next
    case (Some k)
    from find_position_Some [OF Some] F have same: "kind (content s ! k) = kind F"
      by (simp add: ToolCallChatResponseContent_is_def)
    show ?thesis
    proof (cases "hasMerge (content s ! k)")
      case True
      from merge_defined [OF same True] obtain ok m where
        "merge (content s ! k) F = Some (ok, m)" by blast
      with Some F True show ?thesis
        by (simp add: doAddContent_def Let_def)
    next
      case False
      with Some F show ?thesis
        by (simp add: doAddContent_def Let_def)
    qed
  qed
next
  case False
  show ?thesis
  proof (cases "content s \<noteq> [] \<and> kind (last (content s)) = kind F \<and> hasMerge (last (content s))")
    case True
    then obtain ok m where "merge (last (content s)) F = Some (ok, m)"
      using merge_defined by blast
    with True False show ?thesis
      by (auto simp: doAddContent_def lastElement_def Let_def)
  next
    case nomerge: False
    with False show ?thesis
      by (auto simp: doAddContent_def lastElement_def Let_def)
  qed
qed

text \<open>
  Claim C2, as stated, fails. On a new response the fragment with id \<open>t1\<close> and name
  \<open>foo\<close> is appended; the second fragment carries the same id, so it is merged into that
  element by id, and a merge under equal ids takes over the finished flag and the result
  only. The arguments of the single element are therefore not the arguments of the second
  fragment.
\<close>

theorem C2_arguments_not_accumulated:
  "map_option (map content_arguments \<circ> content)
     (addContentEach newChatResponseImpl
        [ToolCallChatResponseContentImpl (Some ''t1'') (Some ''foo'') None None None,
         ToolCallChatResponseContentImpl (Some ''t1'') None
           (Some (''{'' @ [CHR 0x22] @ ''x'' @ [CHR 0x22] @ '':1}'')) None None]) \<noteq>
   Some [Some (''{'' @ [CHR 0x22] @ ''x'' @ [CHR 0x22] @ '':1}'')]"
  by (simp add: addContent_def doAddContent_def ToolCallChatResponseContent_is_def Let_def
      push_def newChatResponseImpl_def updateResponseRepresentation_def fireContentChange_def)

text \<open>
  Claim C2, amended. After the first two fragments the response holds a single tool call
  with id \<open>t1\<close>, name \<open>foo\<close> and still no arguments; after the third fragment (id \<open>t1\<close>,
  finished, result \<open>ok\<close>) it is still a single element, finished, with result \<open>ok\<close>.
\<close>

theorem C2_id_match_adopts_finished_and_result:
  "map_option content
     (addContentEach newChatResponseImpl
        [ToolCallChatResponseContentImpl (Some ''t1'') (Some ''foo'') None None None,
         ToolCallChatResponseContentImpl (Some ''t1'') None
           (Some (''{'' @ [CHR 0x22] @ ''x'' @ [CHR 0x22] @ '':1}'')) None None]) =
     Some [ToolCallChatResponseContentImpl (Some ''t1'') (Some ''foo'') None (Some False) None] \<and>
   map_option content
     (addContentEach newChatResponseImpl
        [ToolCallChatResponseContentImpl (Some ''t1'') (Some ''foo'') None None None,
         ToolCallChatResponseContentImpl (Some ''t1'') None
           (Some (''{'' @ [CHR 0x22] @ ''x'' @ [CHR 0x22] @ '':1}'')) None None,
         ToolCallChatResponseContentImpl (Some ''t1'') None None (Some True) (Some ''ok'')]) =
     Some [ToolCallChatResponseContentImpl (Some ''t1'') (Some ''foo'') None (Some True) (Some ''ok'')] \<and>
   content_arguments
     (ToolCallChatResponseContentImpl (Some ''t1'') (Some ''foo'') None (Some True) (Some ''ok'')) = None \<and>
   content_finished
     (ToolCallChatResponseContentImpl (Some ''t1'') (Some ''foo'') None (Some True) (Some ''ok'')) = True \<and>
   content_result
     (ToolCallChatResponseContentImpl (Some ''t1'') (Some ''foo'') None (Some True) (Some ''ok'')) = Some ''ok''"
  by (simp add: addContent_def doAddContent_def ToolCallChatResponseContent_is_def Let_def
      push_def newChatResponseImpl_def updateResponseRepresentation_def fireContentChange_def)


section \<open>Flattening a response to a string\<close>

text \<open>
  Claim C4 says that \<open>asString\<close> is the blank-line join of the renderings for every
  content sequence. \<open>asString\<close> returns the cached \<open>_responseRepresentation\<close>, which
  the constructor does not set and only \<open>_updateResponseRepresentation\<close> writes. On a
  new response, and still after \<open>addContents\<close> of no fragments, the content sequence is
  empty, its join is the empty string, and \<open>asString\<close> is undefined.
\<close>

theorem C4_new_response_asString_undefined:
  "content newChatResponseImpl = [] \<and>
   asString newChatResponseImpl = None \<and>
   map_option asString (addContents newChatResponseImpl []) = Some None \<and>
   responseRepresentationsToString (content newChatResponseImpl) collect_asString = []"
  by (simp add: newChatResponseImpl_def asString_def addContents_def fireContentChange_def
      responseRepresentationsToString_def)

text \<open>Once the representation has been computed, by any \<open>doAddContent\<close>,
  \<open>addContent\<close> or \<open>responseContentChanged\<close>, \<open>asString\<close> is the join over the
  content.\<close>

lemma asString_after_update:
  "asString (updateResponseRepresentation s) =
     Some (responseRepresentationsToString (content (updateResponseRepresentation s)) collect_asString)"
  by (simp add: asString_def updateResponseRepresentation_def)

lemma asString_after_doAddContent:
  "doAddContent s c = Some s' \<Longrightarrow>
     asString s' = Some (responseRepresentationsToString (content s') collect_asString)"
  by (auto simp: doAddContent_def asString_def updateResponseRepresentation_def)

lemma asString_after_addContent:
  "addContent s c = Some s' \<Longrightarrow>
     asString s' = Some (responseRepresentationsToString (content s') collect_asString)"
  by (auto simp: addContent_def fireContentChange_def asString_def doAddContent_def
      updateResponseRepresentation_def)

lemma asString_after_responseContentChanged:
  "asString (responseContentChanged s) =
     Some (responseRepresentationsToString (content (responseContentChanged s)) collect_asString)"
  by (simp add: responseContentChanged_def fireContentChange_def asString_def
      updateResponseRepresentation_def)

text \<open>The same for the display string, and two facts about \<open>join\<close>: how it unfolds
  and that every defined element of the array occurs in the joined string.\<close>

lemma asDisplayString_after_doAddContent:
  "doAddContent s c = Some s' \<Longrightarrow>
     asDisplayString s' =
       Some (responseRepresentationsToString (content s') collect_asDisplayString)"
  by (auto simp: doAddContent_def asDisplayString_def updateResponseRepresentation_def)






end
